theory Spec2Isabelle
  imports Main "HOL-Library.Word"
begin

unbundle bit_operations_syntax

section \<open>Tempesta FW: generic connection management (connection.c)\<close>

text \<open>
  A shallow embedding of \<^verbatim>\<open>src/tempesta_fw/connection.c\<close>. Kernel objects live in
  explicit heaps (maps from addresses to records), a C pointer is an address or NULL
  (\<open>None\<close>), and every kernel oops (a BUG_ON that fires, a NULL or dangling
  dereference, an out-of-bounds read of the hook table) is an \<open>Inl\<close> result.
\<close>

subsection \<open>Data model\<close>

type_synonym c_int = "32 word"
type_synonym sock_ptr = nat
type_synonym conn_ptr = nat
type_synonym proto_ptr = nat
type_synonym msg_ptr = nat
type_synonym peer_ptr = nat
type_synonym hooks_ptr = nat
type_synonym skb_ptr = nat

text \<open>
  \<^verbatim>\<open>sk->sk_user_data\<close> is a \<^verbatim>\<open>void *\<close> that holds either a bare \<^verbatim>\<open>SsProto\<close> (a
  protocol pre-binding) or a \<^verbatim>\<open>TfwConnection\<close>, whose first member is its
  \<^verbatim>\<open>SsProto\<close>. The model keeps the two kinds of object in two heaps and tags the
  pointer with the heap it points into.
\<close>

datatype proto_ref = ProtoRef proto_ptr | ConnRef conn_ptr

text \<open>Function pointers stored in \<^verbatim>\<open>sk->sk_destruct\<close>.\<close>

datatype sk_destructor = tfw_client_put | sk_destructor_fn nat

datatype sock_flag = SOCK_DBG | SOCK_FLAG nat

record SsProto =
  type :: c_int

record TfwAddr =
  family :: "16 word"
  port :: "16 word"
  ip :: "128 word"

record struct_sock =
  sk_user_data :: "proto_ref option"
  sk_destruct :: "sk_destructor option"
  sk_flags :: "sock_flag set"
  sk_daddr :: TfwAddr

text \<open>
  \<^verbatim>\<open>TfwConnection\<close>. The \<^verbatim>\<open>list\<close> member (a \<^verbatim>\<open>list_head\<close>) is the connection's
  membership in its peer's list; the model keeps the membership on the peer's side
  (\<open>conn_list\<close>), so \<^verbatim>\<open>INIT_LIST_HEAD(&c->list)\<close> is the fact that a new connection
  is on no list.
\<close>

record TfwConnection =
  proto :: SsProto
  msg_queue :: "msg_ptr list"
  msg :: "msg_ptr option"
  peer :: "peer_ptr option"
  sock :: "sock_ptr option"
  conn_sk_destruct :: "sk_destructor option"

record TfwMsg =
  skb_list :: "skb_ptr list"

record TfwPeer =
  conn_list :: "conn_ptr list"

text \<open>
  Calls that leave the file: the protocol hooks, \<^verbatim>\<open>ss_close\<close> and
  \<^verbatim>\<open>tfw_create_client\<close>. The log is ghost state: it records every such call in order,
  and the callee cannot rewrite it.
\<close>

datatype call =
    CONN_INIT hooks_ptr conn_ptr
  | CONN_DESTRUCT hooks_ptr conn_ptr
  | CONN_MSG_ALLOC hooks_ptr conn_ptr
  | SS_CLOSE sock_ptr
  | CREATE_CLIENT conn_ptr TfwAddr

record state =
  socks :: "sock_ptr \<rightharpoonup> struct_sock"
  protos :: "proto_ptr \<rightharpoonup> SsProto"
  conns :: "conn_ptr \<rightharpoonup> TfwConnection"
  msgs :: "msg_ptr \<rightharpoonup> TfwMsg"
  peers :: "peer_ptr \<rightharpoonup> TfwPeer"
  conn_hooks :: "nat \<Rightarrow> hooks_ptr option"
  calls :: "call list"

datatype fault = BUG | NULL_DEREF | BAD_PTR | OUT_OF_BOUNDS

datatype verdict = TFW_PASS | TFW_BLOCK | TFW_POSTPONE

record TfwConnHooks =
  conn_init :: "conn_ptr \<Rightarrow> state \<Rightarrow> state"
  conn_destruct :: "conn_ptr \<Rightarrow> state \<Rightarrow> state"
  conn_msg_alloc :: "conn_ptr \<Rightarrow> state \<Rightarrow> msg_ptr option \<times> state"

text \<open>
  What connection.c takes from its headers and its collaborators, none of which is
  under src/: the direction bits and the index macro of connection.h, the table size
  of gfsm.h, the classifier's two gates, the slab allocator, the code behind each
  registered hook set, the client registry and \<^verbatim>\<open>ss_close\<close>. The gates are the
  spec's external predicates: they give a verdict on the state and the socket and change
  nothing. The allocator returns the address of the new object, or NULL.
\<close>

record env =
  Conn_Clnt :: c_int
  Conn_Srv :: c_int
  TFW_CONN_TYPE2IDX :: "c_int \<Rightarrow> c_int"
  TFW_CONN_MAX_PROTOS :: nat
  tfw_classify_conn_estab :: "state \<Rightarrow> sock_ptr \<Rightarrow> verdict"
  tfw_classify_conn_close :: "state \<Rightarrow> sock_ptr \<Rightarrow> verdict"
  kmem_cache_alloc :: "state \<Rightarrow> conn_ptr option"
  hooks_at :: "hooks_ptr \<Rightarrow> TfwConnHooks"
  tfw_create_client :: "conn_ptr \<Rightarrow> TfwAddr \<Rightarrow> state \<Rightarrow> peer_ptr option \<times> state"
  ss_close :: "sock_ptr \<Rightarrow> state \<Rightarrow> state"

definition EPERM :: int where "EPERM = 1"
definition ENOMEM :: int where "ENOMEM = 12"
definition EINVAL :: int where "EINVAL = 22"

definition TFW_CONN_TYPE :: "TfwConnection \<Rightarrow> c_int" where
  "TFW_CONN_TYPE c = type (proto c)"

subsection \<open>Hook registry\<close>

text \<open>
  \<^verbatim>\<open>conn_hooks[TFW_CONN_TYPE2IDX(t)]\<close> with an \<^verbatim>\<open>int\<close> index, as
  \<^verbatim>\<open>tfw_connection_new\<close>, \<^verbatim>\<open>tfw_connection_close\<close> and
  \<^verbatim>\<open>tfw_connection_put_skb_to_msg\<close> read it: an index outside the array is an
  out-of-bounds read, an empty slot a NULL dereference at the call through it.
\<close>

definition hooks_lookup :: "env \<Rightarrow> state \<Rightarrow> c_int \<Rightarrow> fault + hooks_ptr" where
  "hooks_lookup e s t =
     (let i = sint (TFW_CONN_TYPE2IDX e t) in
      if i < 0 \<or> int (TFW_CONN_MAX_PROTOS e) \<le> i then Inl OUT_OF_BOUNDS
      else case conn_hooks s (nat i) of
             None \<Rightarrow> Inl NULL_DEREF
           | Some h \<Rightarrow> Inr h)"

text \<open>
  \<^verbatim>\<open>tfw_connection_hooks_register\<close>: \<^verbatim>\<open>hid\<close> is \<^verbatim>\<open>unsigned\<close>; the \<^verbatim>\<open>||\<close> of the
  BUG_ON reads the slot only when the index is in range.
\<close>

definition tfw_connection_hooks_register ::
    "env \<Rightarrow> hooks_ptr option \<Rightarrow> c_int \<Rightarrow> state \<Rightarrow> fault + state" where
  "tfw_connection_hooks_register e hooks t s =
     (let hid = unat (TFW_CONN_TYPE2IDX e t) in
      if TFW_CONN_MAX_PROTOS e \<le> hid \<or> conn_hooks s hid \<noteq> None then Inl BUG
      else Inr (s\<lparr>conn_hooks := (conn_hooks s)(hid := hooks)\<rparr>))"

subsection \<open>Calls that leave the file\<close>

text \<open>
  A hook runs arbitrary protocol code on the whole state. Only the call log is out of
  its reach: the entry for the call is appended to the log as it was before the call.
\<close>

definition call_conn_init :: "env \<Rightarrow> hooks_ptr \<Rightarrow> conn_ptr \<Rightarrow> state \<Rightarrow> state" where
  "call_conn_init e h c s =
     (conn_init (hooks_at e h) c s)\<lparr>calls := calls s @ [CONN_INIT h c]\<rparr>"

definition call_conn_destruct :: "env \<Rightarrow> hooks_ptr \<Rightarrow> conn_ptr \<Rightarrow> state \<Rightarrow> state" where
  "call_conn_destruct e h c s =
     (conn_destruct (hooks_at e h) c s)\<lparr>calls := calls s @ [CONN_DESTRUCT h c]\<rparr>"

definition call_conn_msg_alloc ::
    "env \<Rightarrow> hooks_ptr \<Rightarrow> conn_ptr \<Rightarrow> state \<Rightarrow> msg_ptr option \<times> state" where
  "call_conn_msg_alloc e h c s =
     (case conn_msg_alloc (hooks_at e h) c s of
        (m, s1) \<Rightarrow> (m, s1\<lparr>calls := calls s @ [CONN_MSG_ALLOC h c]\<rparr>))"

definition call_ss_close :: "env \<Rightarrow> sock_ptr \<Rightarrow> state \<Rightarrow> state" where
  "call_ss_close e sk s = (ss_close e sk s)\<lparr>calls := calls s @ [SS_CLOSE sk]\<rparr>"

definition call_tfw_create_client ::
    "env \<Rightarrow> conn_ptr \<Rightarrow> TfwAddr \<Rightarrow> state \<Rightarrow> peer_ptr option \<times> state" where
  "call_tfw_create_client e c a s =
     (case tfw_create_client e c a s of
        (p, s1) \<Rightarrow> (p, s1\<lparr>calls := calls s @ [CREATE_CLIENT c a]\<rparr>))"

text \<open>
  Modelled from the spec: \<^verbatim>\<open>tfw_peer_del_conn\<close> (peer.h is not under src/) "unlinks
  from the peer's connection list". The peer is reached through the pointer, so a NULL
  or dangling peer is a fault.
\<close>

definition tfw_peer_del_conn :: "peer_ptr option \<Rightarrow> conn_ptr \<Rightarrow> state \<Rightarrow> fault + state" where
  "tfw_peer_del_conn p c s =
     (case p of
        None \<Rightarrow> Inl NULL_DEREF
      | Some pp \<Rightarrow>
          (case peers s pp of
             None \<Rightarrow> Inl BAD_PTR
           | Some pv \<Rightarrow>
               Inr (s\<lparr>peers := (peers s)(pp \<mapsto> pv\<lparr>conn_list := removeAll c (conn_list pv)\<rparr>)\<rparr>)))"

text \<open>
  Modelled from the spec: \<^verbatim>\<open>ss_skb_queue_tail\<close> (ss_skb.h is not under src/) appends
  the segment to the message's segment list, so the list is in arrival order.
\<close>

definition ss_skb_queue_tail :: "msg_ptr \<Rightarrow> skb_ptr \<Rightarrow> state \<Rightarrow> fault + state" where
  "ss_skb_queue_tail m skb s =
     (case msgs s m of
        None \<Rightarrow> Inl BAD_PTR
      | Some mv \<Rightarrow> Inr (s\<lparr>msgs := (msgs s)(m \<mapsto> mv\<lparr>skb_list := skb_list mv @ [skb]\<rparr>)\<rparr>))"

subsection \<open>Utilities\<close>

text \<open>
  \<^verbatim>\<open>tfw_connection_alloc\<close>: the object comes zeroed (\<^verbatim>\<open>__GFP_ZERO\<close>), then the type is
  set and the two list heads are initialised.
\<close>

definition tfw_connection_alloc :: "env \<Rightarrow> c_int \<Rightarrow> state \<Rightarrow> conn_ptr option \<times> state" where
  "tfw_connection_alloc e t s =
     (case kmem_cache_alloc e s of
        None \<Rightarrow> (None, s)
      | Some c \<Rightarrow>
          (Some c,
           s\<lparr>conns := (conns s)(c \<mapsto>
                \<lparr>proto = \<lparr>type = t\<rparr>, msg_queue = [], msg = None, peer = None,
                 sock = None, conn_sk_destruct = None\<rparr>)\<rparr>))"

definition tfw_connection_free :: "conn_ptr \<Rightarrow> state \<Rightarrow> state" where
  "tfw_connection_free c s = s\<lparr>conns := (conns s)(c := None)\<rparr>"

text \<open>\<^verbatim>\<open>proto->type\<close> read through the user-data pointer.\<close>

definition read_proto_type :: "state \<Rightarrow> proto_ref \<Rightarrow> fault + c_int" where
  "read_proto_type s r =
     (case r of
        ProtoRef p \<Rightarrow> (case protos s p of None \<Rightarrow> Inl BAD_PTR | Some pv \<Rightarrow> Inr (type pv))
      | ConnRef c \<Rightarrow> (case conns s c of None \<Rightarrow> Inl BAD_PTR | Some cv \<Rightarrow> Inr (type (proto cv))))"

subsection \<open>Connection downcalls\<close>

text \<open>
  The type after lines 90-94 of \<^verbatim>\<open>tfw_connection_new\<close>:
  \<^verbatim>\<open>if (sk->sk_user_data) { SsProto *proto = sk->sk_user_data; type |= proto->type; }\<close>
\<close>

definition conn_new_type :: "state \<Rightarrow> struct_sock \<Rightarrow> c_int \<Rightarrow> fault + c_int" where
  "conn_new_type s skv t =
     (case sk_user_data skv of
        None \<Rightarrow> Inr t
      | Some r \<Rightarrow> (case read_proto_type s r of Inl f \<Rightarrow> Inl f | Inr pt \<Rightarrow> Inr (t OR pt)))"

definition tfw_connection_new ::
    "env \<Rightarrow> sock_ptr \<Rightarrow> c_int \<Rightarrow> sk_destructor option \<Rightarrow> state
       \<Rightarrow> fault + (conn_ptr option \<times> state)" where
  "tfw_connection_new e sk t0 destructor s =
     (if t0 AND (Conn_Clnt e OR Conn_Srv e) = 0 then Inl BUG
      else case socks s sk of
        None \<Rightarrow> Inl BAD_PTR
      | Some skv \<Rightarrow>
          (case conn_new_type s skv t0 of
             Inl f \<Rightarrow> Inl f
           | Inr t \<Rightarrow>
               (case tfw_connection_alloc e t s of
                  (None, s1) \<Rightarrow> Inr (None, s1)
                | (Some conn, s1) \<Rightarrow>
                    (case conns s1 conn of
                       None \<Rightarrow> Inl BAD_PTR
                     | Some cv \<Rightarrow>
                         let skv1 = skv\<lparr>sk_user_data := Some (ConnRef conn)\<rparr>;
                             cv1 = (if destructor \<noteq> None
                                    then cv\<lparr>conn_sk_destruct := sk_destruct skv1\<rparr> else cv);
                             skv2 = (if destructor \<noteq> None
                                     then skv1\<lparr>sk_destruct := destructor\<rparr> else skv1);
                             cv2 = cv1\<lparr>sock := Some sk\<rparr>;
                             skv3 = skv2\<lparr>sk_flags := insert SOCK_DBG (sk_flags skv2)\<rparr>;
                             s2 = s1\<lparr>socks := (socks s1)(sk \<mapsto> skv3),
                                     conns := (conns s1)(conn \<mapsto> cv2)\<rparr>
                         in (case hooks_lookup e s2 t of
                               Inl f \<Rightarrow> Inl f
                             | Inr h \<Rightarrow> Inr (Some conn, call_conn_init e h conn s2))))))"

text \<open>
  \<^verbatim>\<open>tfw_connection_close\<close>. \<^verbatim>\<open>c\<close> is read from the socket before the gate; it is
  dereferenced only after it. A bare \<^verbatim>\<open>SsProto\<close> in the user-data slot is no
  connection: the reads past it are a fault.
\<close>

definition tfw_connection_close :: "env \<Rightarrow> sock_ptr \<Rightarrow> state \<Rightarrow> fault + (int \<times> state)" where
  "tfw_connection_close e sk s =
     (case socks s sk of
        None \<Rightarrow> Inl BAD_PTR
      | Some skv \<Rightarrow>
          if tfw_classify_conn_close e s sk = TFW_BLOCK then Inr (- EPERM, s)
          else
            (case sk_user_data skv of
               None \<Rightarrow> Inl NULL_DEREF
             | Some (ProtoRef p) \<Rightarrow> Inl BAD_PTR
             | Some (ConnRef c) \<Rightarrow>
                 (case conns s c of
                    None \<Rightarrow> Inl BAD_PTR
                  | Some cv \<Rightarrow>
                      (case hooks_lookup e s (TFW_CONN_TYPE cv) of
                         Inl f \<Rightarrow> Inl f
                       | Inr h \<Rightarrow>
                           let s1 = call_conn_destruct e h c s in
                           (case conns s1 c of
                              None \<Rightarrow> Inl BAD_PTR
                            | Some cv1 \<Rightarrow>
                                (case tfw_peer_del_conn (peer cv1) c s1 of
                                   Inl f \<Rightarrow> Inl f
                                 | Inr s2 \<Rightarrow>
                                     let s3 = tfw_connection_free c s2 in
                                     (case socks s3 sk of
                                        None \<Rightarrow> Inl BAD_PTR
                                      | Some skv3 \<Rightarrow>
                                          Inr (0, s3\<lparr>socks := (socks s3)(sk \<mapsto>
                                                    skv3\<lparr>sk_user_data := None\<rparr>)\<rparr>))))))))"

subsection \<open>Connection upcalls\<close>

text \<open>\<^verbatim>\<open>memset(&addr, 0, sizeof(addr))\<close>\<close>

definition zero_addr :: TfwAddr where
  "zero_addr = \<lparr>family = 0, port = 0, ip = 0\<rparr>"

definition tfw_connection_new_upcall :: "env \<Rightarrow> sock_ptr \<Rightarrow> state \<Rightarrow> fault + (int \<times> state)" where
  "tfw_connection_new_upcall e sk s =
     (if tfw_classify_conn_estab e s sk = TFW_BLOCK then Inr (- EPERM, s)
      else
        (case tfw_connection_new e sk (Conn_Clnt e) (Some tfw_client_put) s of
           Inl f \<Rightarrow> Inl f
         | Inr (None, s1) \<Rightarrow> Inr (- ENOMEM, call_ss_close e sk s1)
         | Inr (Some conn, s1) \<Rightarrow>
             (case call_tfw_create_client e conn zero_addr s1 of
                (None, s2) \<Rightarrow> Inr (- EINVAL, call_ss_close e sk s2)
              | (Some cl, s2) \<Rightarrow> Inr (0, s2))))"

text \<open>
  \<^verbatim>\<open>tfw_connection_put_skb_to_msg\<close>: the \<^verbatim>\<open>SsProto *\<close> is cast to the connection it
  heads.
\<close>

definition tfw_connection_put_skb_to_msg ::
    "env \<Rightarrow> proto_ref \<Rightarrow> skb_ptr \<Rightarrow> state \<Rightarrow> fault + (int \<times> state)" where
  "tfw_connection_put_skb_to_msg e pr skb s =
     (case pr of
        ProtoRef p \<Rightarrow> Inl BAD_PTR
      | ConnRef conn \<Rightarrow>
          (case conns s conn of
             None \<Rightarrow> Inl BAD_PTR
           | Some cv \<Rightarrow>
               (case msg cv of
                  Some m \<Rightarrow>
                    (case ss_skb_queue_tail m skb s of
                       Inl f \<Rightarrow> Inl f
                     | Inr s' \<Rightarrow> Inr (0, s'))
                | None \<Rightarrow>
                    (case hooks_lookup e s (TFW_CONN_TYPE cv) of
                       Inl f \<Rightarrow> Inl f
                     | Inr h \<Rightarrow>
                         (case call_conn_msg_alloc e h conn s of
                            (r, s1) \<Rightarrow>
                              (case conns s1 conn of
                                 None \<Rightarrow> Inl BAD_PTR
                               | Some cv1 \<Rightarrow>
                                   let s2 = s1\<lparr>conns := (conns s1)(conn \<mapsto> cv1\<lparr>msg := r\<rparr>)\<rparr>
                                   in (case r of
                                         None \<Rightarrow> Inr (- ENOMEM, s2)
                                       | Some m \<Rightarrow>
                                           (case ss_skb_queue_tail m skb s2 of
                                              Inl f \<Rightarrow> Inl f
                                            | Inr s' \<Rightarrow> Inr (0, s')))))))))"

definition tfw_connection_postpone_skb ::
    "proto_ref \<Rightarrow> skb_ptr \<Rightarrow> state \<Rightarrow> fault + (int \<times> state)" where
  "tfw_connection_postpone_skb pr skb s =
     (case pr of
        ProtoRef p \<Rightarrow> Inl BAD_PTR
      | ConnRef conn \<Rightarrow>
          (case conns s conn of
             None \<Rightarrow> Inl BAD_PTR
           | Some cv \<Rightarrow>
               (case msg cv of
                  None \<Rightarrow> Inl NULL_DEREF
                | Some m \<Rightarrow>
                    (case ss_skb_queue_tail m skb s of
                       Inl f \<Rightarrow> Inl f
                     | Inr s' \<Rightarrow> Inr (0, s')))))"

subsection \<open>A test configuration\<close>

text \<open>
  Concrete collaborators and states on which the theorems below are exercised: the
  direction bits and a four-bit index mask for the type tag, a classifier that blocks
  socket 13, a connection cache with the single slot 1, one hook set whose
  \<^verbatim>\<open>conn_msg_alloc\<close> has the single message slot 30, and a client registry that
  attaches connections to client 5.
\<close>

definition http_hooks :: TfwConnHooks where
  "http_hooks =
     \<lparr>conn_init = (\<lambda>c s. s),
      conn_destruct = (\<lambda>c s.
        case conns s c of
          None \<Rightarrow> s
        | Some cv \<Rightarrow>
            s\<lparr>conns := (conns s)(c \<mapsto> cv\<lparr>msg := None\<rparr>),
              msgs := (case msg cv of None \<Rightarrow> msgs s | Some m \<Rightarrow> (msgs s)(m := None))\<rparr>),
      conn_msg_alloc = (\<lambda>c s.
        case msgs s 30 of
          None \<Rightarrow> (Some 30, s\<lparr>msgs := (msgs s)(30 \<mapsto> \<lparr>skb_list = []\<rparr>)\<rparr>)
        | Some mv \<Rightarrow> (None, s))\<rparr>"

definition env0 :: env where
  "env0 =
     \<lparr>Conn_Clnt = 0x100, Conn_Srv = 0x200,
      TFW_CONN_TYPE2IDX = (\<lambda>t. t AND 0xF),
      TFW_CONN_MAX_PROTOS = 16,
      tfw_classify_conn_estab = (\<lambda>s sk. if sk = 13 then TFW_BLOCK else TFW_PASS),
      tfw_classify_conn_close = (\<lambda>s sk. if sk = 13 then TFW_BLOCK else TFW_PASS),
      kmem_cache_alloc = (\<lambda>s. if conns s 1 = None then Some 1 else None),
      hooks_at = (\<lambda>h. http_hooks),
      tfw_create_client = (\<lambda>c a s.
        case conns s c of
          None \<Rightarrow> (None, s)
        | Some cv \<Rightarrow>
            (case peers s 5 of
               None \<Rightarrow> (None, s)
             | Some pv \<Rightarrow>
                 (Some 5, s\<lparr>conns := (conns s)(c \<mapsto> cv\<lparr>peer := Some 5\<rparr>),
                            peers := (peers s)(5 \<mapsto> pv\<lparr>conn_list := c # conn_list pv\<rparr>)\<rparr>))),
      ss_close = (\<lambda>sk s. s)\<rparr>"

definition sk0 :: struct_sock where
  "sk0 = \<lparr>sk_user_data = None, sk_destruct = Some (sk_destructor_fn 0), sk_flags = {},
          sk_daddr = \<lparr>family = 2, port = 80, ip = 0x0A000001\<rparr>\<rparr>"

definition conn0 :: TfwConnection where
  "conn0 = \<lparr>proto = \<lparr>type = 0x100\<rparr>, msg_queue = [], msg = None, peer = Some 5,
            sock = Some 10, conn_sk_destruct = Some (sk_destructor_fn 0)\<rparr>"

text \<open>
  \<open>s0\<close>: nothing is connected; socket 11 carries a pre-bound protocol tag that has
  the server-facing bit set, socket 12 one that has protocol bits only. \<open>s_live\<close>:
  socket 10 and socket 13 each carry a live connection of client 5. \<open>s_busy\<close>: as
  \<open>s_live\<close>, with message 30, holding segment 70, in flight on connection 2.
  \<open>s_full\<close>: as \<open>s0\<close>, with the cache slot taken.
\<close>

definition s0 :: state where
  "s0 =
     \<lparr>socks = [10 \<mapsto> sk0, 11 \<mapsto> sk0\<lparr>sk_user_data := Some (ProtoRef 20)\<rparr>,
               12 \<mapsto> sk0\<lparr>sk_user_data := Some (ProtoRef 21)\<rparr>, 13 \<mapsto> sk0],
      protos = [20 \<mapsto> \<lparr>type = 0x201\<rparr>, 21 \<mapsto> \<lparr>type = 1\<rparr>],
      conns = Map.empty,
      msgs = Map.empty,
      peers = [5 \<mapsto> \<lparr>conn_list = []\<rparr>],
      conn_hooks = (\<lambda>i. if i = 0 then Some 100 else if i = 1 then Some 101 else None),
      calls = []\<rparr>"

definition s_live :: state where
  "s_live =
     s0\<lparr>socks := [10 \<mapsto> sk0\<lparr>sk_user_data := Some (ConnRef 1),
                                sk_destruct := Some tfw_client_put, sk_flags := {SOCK_DBG}\<rparr>,
                  13 \<mapsto> sk0\<lparr>sk_user_data := Some (ConnRef 2),
                                sk_destruct := Some tfw_client_put, sk_flags := {SOCK_DBG}\<rparr>],
        conns := [1 \<mapsto> conn0, 2 \<mapsto> conn0\<lparr>sock := Some 13\<rparr>],
        peers := [5 \<mapsto> \<lparr>conn_list = [2, 1]\<rparr>]\<rparr>"

definition s_busy :: state where
  "s_busy =
     s_live\<lparr>conns := [1 \<mapsto> conn0, 2 \<mapsto> conn0\<lparr>sock := Some 13, msg := Some 30\<rparr>],
            msgs := [30 \<mapsto> \<lparr>skb_list = [70]\<rparr>]\<rparr>"

definition s_full :: state where
  "s_full = s0\<lparr>conns := [1 \<mapsto> conn0\<lparr>peer := None, sock := None\<rparr>]\<rparr>"

text \<open>
  \<open>s_live1\<close>: as \<open>s_live\<close>, and socket 11 carries connection 3, a client-facing
  connection of protocol 1 (hook set 101). \<open>env2\<close>: as \<open>env0\<close>, with the two cache
  slots 1 and 2.
\<close>

definition s_live1 :: state where
  "s_live1 =
     s_live\<lparr>socks := (socks s_live)(11 \<mapsto> sk0\<lparr>sk_user_data := Some (ConnRef 3),
                                sk_destruct := Some tfw_client_put, sk_flags := {SOCK_DBG}\<rparr>),
             conns := (conns s_live)(3 \<mapsto> conn0\<lparr>proto := \<lparr>type = 0x101\<rparr>, sock := Some 11\<rparr>),
             peers := [5 \<mapsto> \<lparr>conn_list = [3, 2, 1]\<rparr>]\<rparr>"

definition env2 :: env where
  "env2 = env0\<lparr>kmem_cache_alloc :=
     (\<lambda>s. if conns s 1 = None then Some 1 else if conns s 2 = None then Some 2 else None)\<rparr>"

subsection \<open>Notions used by the properties\<close>

text \<open>The direction bits of a type tag.\<close>

definition dir_bits :: "env \<Rightarrow> c_int \<Rightarrow> c_int" where
  "dir_bits e t = t AND (Conn_Clnt e OR Conn_Srv e)"

text \<open>
  The binding of invariant 3: the socket's user-data slot points to the connection
  and the connection's \<^verbatim>\<open>sock\<close> points back.
\<close>

definition bound :: "state \<Rightarrow> sock_ptr \<Rightarrow> conn_ptr \<Rightarrow> bool" where
  "bound s sk c \<longleftrightarrow>
     map_option sk_user_data (socks s sk) = Some (Some (ConnRef c)) \<and>
     map_option sock (conns s c) = Some (Some sk)"

text \<open>
  What a protocol hook is expected to leave alone: the socket, and the fields of the
  connection that \<^verbatim>\<open>tfw_connection_new\<close> wires (its type, its socket and the captured
  destructor). The in-flight message and the message queue are the protocol's.
\<close>

definition conn_wiring :: "TfwConnection \<Rightarrow> SsProto \<times> sock_ptr option \<times> sk_destructor option" where
  "conn_wiring cv = (proto cv, sock cv, conn_sk_destruct cv)"

definition keeps_wiring :: "(state \<Rightarrow> state) \<Rightarrow> sock_ptr \<Rightarrow> conn_ptr \<Rightarrow> bool" where
  "keeps_wiring f sk c \<longleftrightarrow>
     (\<forall>s. socks (f s) sk = socks s sk \<and>
          map_option conn_wiring (conns (f s) c) = map_option conn_wiring (conns s c))"

text \<open>
  The connection a call of \<^verbatim>\<open>tfw_connection_new\<close> returned, as the state after the call
  holds it.
\<close>

definition new_conn :: "fault + (conn_ptr option \<times> state) \<Rightarrow> TfwConnection option" where
  "new_conn r = (case r of Inr (Some c, s') \<Rightarrow> conns s' c | _ \<Rightarrow> None)"

text \<open>The state and the call log after an upcall that returned.\<close>

definition result_state :: "fault + ('a \<times> state) \<Rightarrow> state option" where
  "result_state r = (case r of Inr (x, s') \<Rightarrow> Some s' | Inl f \<Rightarrow> None)"

definition result_value :: "fault + ('a \<times> state) \<Rightarrow> 'a option" where
  "result_value r = (case r of Inr (x, s') \<Rightarrow> Some x | Inl f \<Rightarrow> None)"

subsection \<open>Sequences of calls\<close>







text \<open>
  Invariant 3 over the whole state: every connection the cache holds is bound to the
  socket its \<^verbatim>\<open>sock\<close> names.
\<close>

definition wired :: "state \<Rightarrow> bool" where
  "wired s \<longleftrightarrow> (\<forall>c cv. conns s c = Some cv \<longrightarrow> (\<exists>sk. sock cv = Some sk \<and> bound s sk c))"





section \<open>Properties\<close>

subsection \<open>Auxiliary facts\<close>

lemmas model_defs = tfw_connection_new_def tfw_connection_close_def tfw_connection_new_upcall_def
  tfw_connection_put_skb_to_msg_def tfw_connection_postpone_skb_def
  tfw_connection_hooks_register_def hooks_lookup_def call_conn_init_def call_conn_destruct_def
  call_conn_msg_alloc_def call_ss_close_def call_tfw_create_client_def tfw_peer_del_conn_def
  ss_skb_queue_tail_def tfw_connection_alloc_def tfw_connection_free_def read_proto_type_def
  conn_new_type_def TFW_CONN_TYPE_def zero_addr_def EPERM_def ENOMEM_def EINVAL_def

lemmas test_defs = env0_def http_hooks_def sk0_def conn0_def s0_def s_live_def s_busy_def
  s_full_def s_live1_def env2_def

lemma hooks_lookup_cong:
  "conn_hooks s' = conn_hooks s \<Longrightarrow> hooks_lookup e s' t = hooks_lookup e s t"
  by (simp add: hooks_lookup_def Let_def)

text \<open>
  What a successful \<^verbatim>\<open>tfw_connection_new\<close> went through: \<open>s2\<close> is the state in which
  \<^verbatim>\<open>conn_init\<close> is called.
\<close>

lemma tfw_connection_new_SomeD:
  assumes new: "tfw_connection_new e sk t0 d s = Inr (Some c, s')"
  shows "\<exists>skv t h s2.
      t0 AND (Conn_Clnt e OR Conn_Srv e) \<noteq> 0
    \<and> socks s sk = Some skv \<and> conn_new_type s skv t0 = Inr t
    \<and> kmem_cache_alloc e s = Some c \<and> hooks_lookup e s t = Inr h
    \<and> s' = call_conn_init e h c s2
    \<and> socks s2 sk = Some (skv\<lparr>sk_user_data := Some (ConnRef c),
          sk_destruct := (if d \<noteq> None then d else sk_destruct skv),
          sk_flags := insert SOCK_DBG (sk_flags skv)\<rparr>)
    \<and> conns s2 c = Some \<lparr>proto = \<lparr>type = t\<rparr>, msg_queue = [], msg = None, peer = None,
          sock = Some sk, conn_sk_destruct = (if d \<noteq> None then sk_destruct skv else None)\<rparr>
    \<and> calls s2 = calls s
    \<and> (\<forall>k. k \<noteq> sk \<longrightarrow> socks s2 k = socks s k)
    \<and> (\<forall>k. k \<noteq> c \<longrightarrow> conns s2 k = conns s k)"
proof -
  from new have dir: "t0 AND (Conn_Clnt e OR Conn_Srv e) \<noteq> 0"
    by (auto simp: tfw_connection_new_def split: if_splits)
  from new dir obtain skv where skv: "socks s sk = Some skv"
    by (auto simp: tfw_connection_new_def split: option.splits)
  from new dir skv obtain t where t: "conn_new_type s skv t0 = Inr t"
    by (auto simp: tfw_connection_new_def split: sum.splits)
  from new dir skv t have alloc: "kmem_cache_alloc e s = Some c"
    by (auto simp: tfw_connection_new_def tfw_connection_alloc_def Let_def
          split: option.splits sum.splits)
  define s2 where "s2 =
    s\<lparr>socks := (socks s)(sk \<mapsto> skv\<lparr>sk_user_data := Some (ConnRef c),
          sk_destruct := (if d \<noteq> None then d else sk_destruct skv),
          sk_flags := insert SOCK_DBG (sk_flags skv)\<rparr>),
      conns := (conns s)(c \<mapsto> \<lparr>proto = \<lparr>type = t\<rparr>, msg_queue = [], msg = None, peer = None,
          sock = Some sk, conn_sk_destruct = (if d \<noteq> None then sk_destruct skv else None)\<rparr>)\<rparr>"
  have hooks2: "hooks_lookup e s2 t = hooks_lookup e s t"
    by (rule hooks_lookup_cong) (simp add: s2_def)
  have "tfw_connection_new e sk t0 d s =
      (case hooks_lookup e s2 t of
         Inl f \<Rightarrow> Inl f
       | Inr h \<Rightarrow> Inr (Some c, call_conn_init e h c s2))"
    using dir skv t alloc
    by (cases d)
       (simp_all add: tfw_connection_new_def tfw_connection_alloc_def Let_def s2_def
          cong: sum.case_cong)
  with new obtain h where h: "hooks_lookup e s2 t = Inr h"
    and s': "s' = call_conn_init e h c s2"
    by (auto split: sum.splits)
  have "socks s2 sk = Some (skv\<lparr>sk_user_data := Some (ConnRef c),
          sk_destruct := (if d \<noteq> None then d else sk_destruct skv),
          sk_flags := insert SOCK_DBG (sk_flags skv)\<rparr>)"
    and "conns s2 c = Some \<lparr>proto = \<lparr>type = t\<rparr>, msg_queue = [], msg = None, peer = None,
          sock = Some sk, conn_sk_destruct = (if d \<noteq> None then sk_destruct skv else None)\<rparr>"
    and "calls s2 = calls s"
    and "\<forall>k. k \<noteq> sk \<longrightarrow> socks s2 k = socks s k"
    and "\<forall>k. k \<noteq> c \<longrightarrow> conns s2 k = conns s k"
    by (simp_all add: s2_def)
  with dir skv t alloc h s' hooks2 show ?thesis by metis
qed

lemma keeps_wiring_socks: "keeps_wiring f sk c \<Longrightarrow> socks (f s) sk = socks s sk"
  by (simp add: keeps_wiring_def)

lemma keeps_wiring_conn:
  "keeps_wiring f sk c \<Longrightarrow> conns s c = Some cv \<Longrightarrow>
     \<exists>cv'. conns (f s) c = Some cv' \<and> proto cv' = proto cv \<and> sock cv' = sock cv
          \<and> conn_sk_destruct cv' = conn_sk_destruct cv"
proof -
  assume k: "keeps_wiring f sk c" and c: "conns s c = Some cv"
  from k have "map_option conn_wiring (conns (f s) c) = map_option conn_wiring (conns s c)"
    by (simp add: keeps_wiring_def)
  with c show ?thesis by (auto simp: conn_wiring_def)
qed


text \<open>The hooks of the test configuration leave the wiring alone.\<close>

lemma env0_hooks_keep_wiring:
  "keeps_wiring (conn_init (hooks_at env0 h) c) sk c'"
  "keeps_wiring (conn_destruct (hooks_at env0 h) c) sk c'"
  "keeps_wiring (\<lambda>s. snd (conn_msg_alloc (hooks_at env0 h) c s)) sk c'"
  by (auto simp: keeps_wiring_def env0_def http_hooks_def conn_wiring_def split: option.splits)






subsection \<open>Closing a connection\<close>

text \<open>
  Claim C1. \<^verbatim>\<open>tfw_connection_close\<close> on a socket \<open>sk\<close>: when the classifier's close gate
  returns block, the call returns \<open>-EPERM\<close> and the state is the one it started from.
  When the gate does not block and the user-data slot holds a connection \<open>c\<close>, the hook
  set \<open>h\<close> is the one registered in the slot of the connection's own protocol index
  (\<^verbatim>\<open>TFW_CONN_TYPE2IDX\<close> of its type), and \<^verbatim>\<open>conn_destruct\<close> of \<open>h\<close> on \<open>c\<close> is the one
  call added to the log; in the state \<open>s1\<close> it leaves (with the connection, its peer
  and the socket still there) the connection is removed from its peer's list, the
  connection is freed, the socket's user-data slot is cleared, nothing else changes,
  and the call returns 0.
\<close>

theorem tfw_connection_close_gate:
  assumes "socks s sk = Some skv"
  shows "(tfw_classify_conn_close e s sk = TFW_BLOCK
            \<longrightarrow> tfw_connection_close e sk s = Inr (- EPERM, s))
     \<and> (tfw_classify_conn_close e s sk \<noteq> TFW_BLOCK
          \<and> sk_user_data skv = Some (ConnRef c) \<and> conns s c = Some cv
          \<and> 0 \<le> sint (TFW_CONN_TYPE2IDX e (type (proto cv)))
          \<and> sint (TFW_CONN_TYPE2IDX e (type (proto cv))) < int (TFW_CONN_MAX_PROTOS e)
          \<and> conn_hooks s (nat (sint (TFW_CONN_TYPE2IDX e (type (proto cv))))) = Some h
          \<and> conn_destruct (hooks_at e h) c s = s1
          \<and> conns s1 c = Some cv1 \<and> peer cv1 = Some p \<and> peers s1 p = Some pv
          \<and> socks s1 sk = Some skv1
            \<longrightarrow> (\<exists>s'. tfw_connection_close e sk s = Inr (0, s')
                  \<and> calls s' = calls s @ [CONN_DESTRUCT h c]
                  \<and> peers s' = (peers s1)(p \<mapsto> pv\<lparr>conn_list := removeAll c (conn_list pv)\<rparr>)
                  \<and> conns s' = (conns s1)(c := None)
                  \<and> socks s' = (socks s1)(sk \<mapsto> skv1\<lparr>sk_user_data := None\<rparr>)
                  \<and> protos s' = protos s1 \<and> msgs s' = msgs s1
                  \<and> conn_hooks s' = conn_hooks s1))"
  using assms
  by (auto simp: tfw_connection_close_def call_conn_destruct_def tfw_peer_del_conn_def
        tfw_connection_free_def hooks_lookup_def TFW_CONN_TYPE_def Let_def)

theorem tfw_connection_close_gate_witness:
  "tfw_connection_close env0 13 s_live = Inr (- EPERM, s_live) \<and>
   (\<exists>s'. tfw_connection_close env0 10 s_live = Inr (0, s')
        \<and> calls s' = [CONN_DESTRUCT 100 1] \<and> conns s' 1 = None
        \<and> map_option conn_list (peers s' 5) = Some [2]
        \<and> map_option sk_user_data (socks s' 10) = Some None) \<and>
   (\<exists>s'. tfw_connection_close env0 11 s_live1 = Inr (0, s')
        \<and> calls s' = [CONN_DESTRUCT 101 3] \<and> conns s' 3 = None
        \<and> map_option conn_list (peers s' 5) = Some [2, 1]
        \<and> map_option sk_user_data (socks s' 11) = Some None)"
proof -
  have sk13: "socks s_live 13 = Some (sk0\<lparr>sk_user_data := Some (ConnRef 2),
      sk_destruct := Some tfw_client_put, sk_flags := {SOCK_DBG}\<rparr>)"
    and sk10: "socks s_live 10 = Some (sk0\<lparr>sk_user_data := Some (ConnRef 1),
      sk_destruct := Some tfw_client_put, sk_flags := {SOCK_DBG}\<rparr>)"
    and sk11: "socks s_live1 11 = Some (sk0\<lparr>sk_user_data := Some (ConnRef 3),
      sk_destruct := Some tfw_client_put, sk_flags := {SOCK_DBG}\<rparr>)"
    by (simp_all add: s_live1_def s_live_def s0_def)
  from tfw_connection_close_gate [OF sk13, where e = env0]
  have blocked: "tfw_connection_close env0 13 s_live = Inr (- EPERM, s_live)"
    by (simp add: env0_def)
  from tfw_connection_close_gate [OF sk10, where e = env0 and c = 1 and cv = conn0 and h = 100
      and ?s1.0 = "conn_destruct (hooks_at env0 100) 1 s_live"
      and ?cv1.0 = "conn0\<lparr>msg := None\<rparr>" and p = 5 and pv = "\<lparr>conn_list = [2, 1]\<rparr>"
      and ?skv1.0 = "sk0\<lparr>sk_user_data := Some (ConnRef 1),
         sk_destruct := Some tfw_client_put, sk_flags := {SOCK_DBG}\<rparr>"]
  have p0: "\<exists>s'. tfw_connection_close env0 10 s_live = Inr (0, s')
        \<and> calls s' = [CONN_DESTRUCT 100 1] \<and> conns s' 1 = None
        \<and> map_option conn_list (peers s' 5) = Some [2]
        \<and> map_option sk_user_data (socks s' 10) = Some None"
    by (auto simp: test_defs)
  from tfw_connection_close_gate [OF sk11, where e = env0 and c = 3
      and cv = "conn0\<lparr>proto := \<lparr>type = 0x101\<rparr>, sock := Some 11\<rparr>" and h = 101
      and ?s1.0 = "conn_destruct (hooks_at env0 101) 3 s_live1"
      and ?cv1.0 = "conn0\<lparr>proto := \<lparr>type = 0x101\<rparr>, sock := Some 11, msg := None\<rparr>"
      and p = 5 and pv = "\<lparr>conn_list = [3, 2, 1]\<rparr>"
      and ?skv1.0 = "sk0\<lparr>sk_user_data := Some (ConnRef 3),
         sk_destruct := Some tfw_client_put, sk_flags := {SOCK_DBG}\<rparr>"]
  have p1: "\<exists>s'. tfw_connection_close env0 11 s_live1 = Inr (0, s')
        \<and> calls s' = [CONN_DESTRUCT 101 3] \<and> conns s' 3 = None
        \<and> map_option conn_list (peers s' 5) = Some [2, 1]
        \<and> map_option sk_user_data (socks s' 11) = Some None"
    by (auto simp: test_defs)
  from blocked p0 p1 show ?thesis by blast
qed

text \<open>
  Claim C2, as the code has it. \<^verbatim>\<open>tfw_connection_close\<close> has no guard for an empty
  user-data slot: on a socket whose slot is empty it returns \<open>-EPERM\<close>, with the state
  unchanged, when the close gate blocks, and otherwise dereferences the NULL
  connection. It never returns success there.
\<close>

theorem tfw_connection_close_empty_slot:
  assumes "socks s sk = Some skv" and "sk_user_data skv = None"
  shows "tfw_connection_close e sk s =
     (if tfw_classify_conn_close e s sk = TFW_BLOCK then Inr (- EPERM, s) else Inl NULL_DEREF)"
  using assms by (simp add: tfw_connection_close_def)

theorem tfw_connection_close_empty_slot_witness:
  "tfw_connection_close env0 10 s0 = Inl NULL_DEREF \<and>
   tfw_connection_close env0 13 s0 = Inr (- EPERM, s0)"
  using tfw_connection_close_empty_slot [of s0 10 sk0 env0]
    tfw_connection_close_empty_slot [of s0 13 sk0 env0]
  by (simp add: test_defs)

text \<open>
  The claim as stated (close on an empty slot is a no-op that returns success) fails:
  sockets 10 and 13 of \<open>s0\<close> have an empty slot; closing the first faults, closing the
  second returns \<open>-EPERM\<close>.
\<close>

theorem tfw_connection_close_not_idempotent:
  "map_option sk_user_data (socks s0 10) = Some None \<and>
   tfw_connection_close env0 10 s0 = Inl NULL_DEREF \<and>
   map_option sk_user_data (socks s0 13) = Some None \<and>
   tfw_connection_close env0 13 s0 = Inr (- EPERM, s0) \<and> - EPERM \<noteq> 0"
  by (simp add: model_defs test_defs)

subsection \<open>The passive-open upcall\<close>

text \<open>
  Claim C5. When the classifier's establishment gate returns block,
  \<^verbatim>\<open>tfw_connection_new_upcall\<close> returns \<open>-EPERM\<close> and the state is the one it started
  from: no connection is allocated, the call log has no \<^verbatim>\<open>conn_init\<close>, and the socket
  keeps its user-data slot and its destructor.
\<close>

theorem tfw_connection_new_upcall_blocked:
  assumes "tfw_classify_conn_estab e s sk = TFW_BLOCK"
  shows "tfw_connection_new_upcall e sk s = Inr (- EPERM, s)"
  using assms by (simp add: tfw_connection_new_upcall_def)

theorem tfw_connection_new_upcall_blocked_witness:
  "tfw_connection_new_upcall env0 13 s0 = Inr (- EPERM, s0)"
  using tfw_connection_new_upcall_blocked [of env0 s0 13] by (simp add: env0_def)

text \<open>
  After the gate and a successful \<^verbatim>\<open>tfw_connection_new\<close>, the upcall registers the client
  with the address it has just zeroed; when the registration fails it closes the socket
  and returns \<open>-EINVAL\<close>, otherwise it returns 0.
\<close>

lemma tfw_connection_new_upcall_create_client:
  assumes "tfw_classify_conn_estab e s sk \<noteq> TFW_BLOCK"
    and "tfw_connection_new e sk (Conn_Clnt e) (Some tfw_client_put) s = Inr (Some conn, s1)"
    and "tfw_create_client e conn zero_addr s1 = (p, s2)"
  shows "tfw_connection_new_upcall e sk s =
     (case p of
        None \<Rightarrow>
          Inr (- EINVAL,
               (ss_close e sk (s2\<lparr>calls := calls s1 @ [CREATE_CLIENT conn zero_addr]\<rparr>))
                 \<lparr>calls := calls s1 @ [CREATE_CLIENT conn zero_addr, SS_CLOSE sk]\<rparr>)
      | Some cl \<Rightarrow> Inr (0, s2\<lparr>calls := calls s1 @ [CREATE_CLIENT conn zero_addr]\<rparr>))"
  using assms
  by (simp add: tfw_connection_new_upcall_def call_tfw_create_client_def call_ss_close_def
        split: option.splits)

text \<open>
  Claim C6. The claim has the socket's remote address resolved and passed to
  \<^verbatim>\<open>tfw_create_client\<close>. The code passes the address it has zeroed with \<^verbatim>\<open>memset\<close>: on
  socket 10 of \<open>s0\<close>, whose remote address is 10.0.0.1 port 80, the upcall succeeds and
  the client registry was called with the all-zero address.
\<close>

theorem tfw_connection_new_upcall_zero_addr:
  "map_option sk_daddr (socks s0 10) = Some \<lparr>family = 2, port = 80, ip = 0x0A000001\<rparr> \<and>
   result_value (tfw_connection_new_upcall env0 10 s0) = Some 0 \<and>
   map_option calls (result_state (tfw_connection_new_upcall env0 10 s0))
     = Some [CONN_INIT 100 1, CREATE_CLIENT 1 \<lparr>family = 0, port = 0, ip = 0\<rparr>]"
  by (simp add: model_defs test_defs result_value_def result_state_def)

subsection \<open>Creating a connection\<close>

text \<open>
  Claim C7. When the connection cache fails, \<^verbatim>\<open>tfw_connection_new\<close> returns NULL and the
  state is the one it started from: the socket's user-data slot and destructor are
  untouched and the call log has no \<^verbatim>\<open>conn_init\<close>.
\<close>

theorem tfw_connection_new_alloc_failure:
  assumes "t0 AND (Conn_Clnt e OR Conn_Srv e) \<noteq> 0" and "socks s sk = Some skv"
    and "conn_new_type s skv t0 = Inr t" and "kmem_cache_alloc e s = None"
  shows "tfw_connection_new e sk t0 destructor s = Inr (None, s)"
  using assms by (simp add: tfw_connection_new_def tfw_connection_alloc_def)

theorem tfw_connection_new_alloc_failure_witness:
  "tfw_connection_new env0 10 0x100 (Some tfw_client_put) s_full = Inr (None, s_full)"
  using tfw_connection_new_alloc_failure
    [of "0x100" env0 s_full 10 sk0 "0x100" "Some tfw_client_put"]
  by (simp add: conn_new_type_def test_defs)

subsection \<open>Registering hooks\<close>

text \<open>
  Claim C8. \<^verbatim>\<open>tfw_connection_hooks_register\<close>: when the index of the type is at least
  \<^verbatim>\<open>TFW_CONN_MAX_PROTOS\<close> or its slot is occupied, the BUG_ON fires; otherwise the hook
  set is stored in the slot of that index, every other slot keeps its content, and
  the rest of the state is untouched.
\<close>

theorem tfw_connection_hooks_register_contract:
  "(TFW_CONN_MAX_PROTOS e \<le> unat (TFW_CONN_TYPE2IDX e t)
      \<or> conn_hooks s (unat (TFW_CONN_TYPE2IDX e t)) \<noteq> None
      \<longrightarrow> tfw_connection_hooks_register e hooks t s = Inl BUG)
   \<and> (unat (TFW_CONN_TYPE2IDX e t) < TFW_CONN_MAX_PROTOS e
      \<and> conn_hooks s (unat (TFW_CONN_TYPE2IDX e t)) = None
      \<longrightarrow> (\<exists>s'. tfw_connection_hooks_register e hooks t s = Inr s'
            \<and> conn_hooks s' (unat (TFW_CONN_TYPE2IDX e t)) = hooks
            \<and> (\<forall>i. i \<noteq> unat (TFW_CONN_TYPE2IDX e t) \<longrightarrow> conn_hooks s' i = conn_hooks s i)
            \<and> socks s' = socks s \<and> protos s' = protos s \<and> conns s' = conns s
            \<and> msgs s' = msgs s \<and> peers s' = peers s \<and> calls s' = calls s))"
  by (simp add: tfw_connection_hooks_register_def Let_def)

theorem tfw_connection_hooks_register_contract_witness:
  "tfw_connection_hooks_register (env0\<lparr>TFW_CONN_MAX_PROTOS := 2\<rparr>) (Some 7) 0x103 s0 = Inl BUG \<and>
   tfw_connection_hooks_register env0 (Some 7) 0x101 s0 = Inl BUG \<and>
   (\<exists>s'. tfw_connection_hooks_register env0 (Some 7) 0x102 s0 = Inr s'
        \<and> conn_hooks s' 2 = Some 7 \<and> conn_hooks s' 0 = Some 100 \<and> conn_hooks s' 1 = Some 101
        \<and> conn_hooks s' 3 = None)"
  using tfw_connection_hooks_register_contract
      [of "env0\<lparr>TFW_CONN_MAX_PROTOS := 2\<rparr>" "0x103" s0 "Some 7"]
    tfw_connection_hooks_register_contract [of env0 "0x101" s0 "Some 7"]
    tfw_connection_hooks_register_contract [of env0 "0x102" s0 "Some 7"]
  by (auto simp: test_defs)

subsection \<open>Segments\<close>

text \<open>
  Claim C3. \<^verbatim>\<open>tfw_connection_put_skb_to_msg\<close> on a connection: with no message in
  flight, \<^verbatim>\<open>conn_msg_alloc\<close> of the hook set registered in the slot of the connection's
  own protocol index is called on it (the one call added to the log); when it returns
  NULL the call returns \<open>-ENOMEM\<close> and the connection's message is empty; when it
  returns a message the connection holds it and the segment is the last of its segment
  list, and the call returns 0. With a message in flight no hook is called and the
  segment is appended to that message's list, after the segments that arrived before
  it, and the call returns 0.
\<close>

theorem tfw_connection_put_skb_to_msg_cases:
  assumes "conns s conn = Some cv"
  shows "(msg cv = None
            \<and> 0 \<le> sint (TFW_CONN_TYPE2IDX e (type (proto cv)))
            \<and> sint (TFW_CONN_TYPE2IDX e (type (proto cv))) < int (TFW_CONN_MAX_PROTOS e)
            \<and> conn_hooks s (nat (sint (TFW_CONN_TYPE2IDX e (type (proto cv))))) = Some h
            \<and> conn_msg_alloc (hooks_at e h) conn s = (None, s1) \<and> conns s1 conn = Some cv1
          \<longrightarrow> (\<exists>s'. tfw_connection_put_skb_to_msg e (ConnRef conn) skb s = Inr (- ENOMEM, s')
                \<and> calls s' = calls s @ [CONN_MSG_ALLOC h conn]
                \<and> conns s' = (conns s1)(conn \<mapsto> cv1\<lparr>msg := None\<rparr>)
                \<and> msgs s' = msgs s1))
       \<and> (msg cv = None
            \<and> 0 \<le> sint (TFW_CONN_TYPE2IDX e (type (proto cv)))
            \<and> sint (TFW_CONN_TYPE2IDX e (type (proto cv))) < int (TFW_CONN_MAX_PROTOS e)
            \<and> conn_hooks s (nat (sint (TFW_CONN_TYPE2IDX e (type (proto cv))))) = Some h
            \<and> conn_msg_alloc (hooks_at e h) conn s = (Some m, s1) \<and> conns s1 conn = Some cv1
            \<and> msgs s1 m = Some mv
          \<longrightarrow> (\<exists>s'. tfw_connection_put_skb_to_msg e (ConnRef conn) skb s = Inr (0, s')
                \<and> calls s' = calls s @ [CONN_MSG_ALLOC h conn]
                \<and> conns s' = (conns s1)(conn \<mapsto> cv1\<lparr>msg := Some m\<rparr>)
                \<and> msgs s' = (msgs s1)(m \<mapsto> mv\<lparr>skb_list := skb_list mv @ [skb]\<rparr>)))
       \<and> (msg cv = Some m \<and> msgs s m = Some mv
          \<longrightarrow> tfw_connection_put_skb_to_msg e (ConnRef conn) skb s =
                Inr (0, s\<lparr>msgs := (msgs s)(m \<mapsto> mv\<lparr>skb_list := skb_list mv @ [skb]\<rparr>)\<rparr>))"
  using assms
  by (auto simp: tfw_connection_put_skb_to_msg_def call_conn_msg_alloc_def ss_skb_queue_tail_def
        hooks_lookup_def TFW_CONN_TYPE_def Let_def)

theorem tfw_connection_put_skb_to_msg_cases_witness:
  "(\<exists>s'. tfw_connection_put_skb_to_msg env0 (ConnRef 1) 71 s_busy = Inr (- ENOMEM, s')
        \<and> calls s' = [CONN_MSG_ALLOC 100 1] \<and> map_option msg (conns s' 1) = Some None)
   \<and> (\<exists>s'. tfw_connection_put_skb_to_msg env0 (ConnRef 1) 71 s_live = Inr (0, s')
        \<and> calls s' = [CONN_MSG_ALLOC 100 1] \<and> map_option msg (conns s' 1) = Some (Some 30)
        \<and> map_option skb_list (msgs s' 30) = Some [71])
   \<and> (\<exists>s'. tfw_connection_put_skb_to_msg env0 (ConnRef 3) 71 s_live1 = Inr (0, s')
        \<and> calls s' = [CONN_MSG_ALLOC 101 3] \<and> map_option msg (conns s' 3) = Some (Some 30)
        \<and> map_option skb_list (msgs s' 30) = Some [71])
   \<and> (\<exists>s'. tfw_connection_put_skb_to_msg env0 (ConnRef 2) 71 s_busy = Inr (0, s')
        \<and> calls s' = [] \<and> map_option skb_list (msgs s' 30) = Some [70, 71])"
proof -
  have c1b: "conns s_busy 1 = Some conn0" and c1l: "conns s_live 1 = Some conn0"
    and c2b: "conns s_busy 2 = Some (conn0\<lparr>sock := Some 13, msg := Some 30\<rparr>)"
    and c3: "conns s_live1 3 = Some (conn0\<lparr>proto := \<lparr>type = 0x101\<rparr>, sock := Some 11\<rparr>)"
    by (simp_all add: s_busy_def s_live1_def s_live_def s0_def)
  from tfw_connection_put_skb_to_msg_cases [OF c1b, where e = env0 and h = 100
      and ?s1.0 = "snd (conn_msg_alloc (hooks_at env0 100) 1 s_busy)" and ?cv1.0 = conn0
      and skb = 71, THEN conjunct1]
  have fails: "\<exists>s'. tfw_connection_put_skb_to_msg env0 (ConnRef 1) 71 s_busy = Inr (- ENOMEM, s')
        \<and> calls s' = [CONN_MSG_ALLOC 100 1] \<and> map_option msg (conns s' 1) = Some None"
    by (auto simp: test_defs)
  from tfw_connection_put_skb_to_msg_cases [OF c1l, where e = env0 and h = 100
      and ?s1.0 = "snd (conn_msg_alloc (hooks_at env0 100) 1 s_live)" and ?cv1.0 = conn0
      and m = 30 and mv = "\<lparr>skb_list = []\<rparr>" and skb = 71, THEN conjunct2, THEN conjunct1]
  have fresh: "\<exists>s'. tfw_connection_put_skb_to_msg env0 (ConnRef 1) 71 s_live = Inr (0, s')
        \<and> calls s' = [CONN_MSG_ALLOC 100 1] \<and> map_option msg (conns s' 1) = Some (Some 30)
        \<and> map_option skb_list (msgs s' 30) = Some [71]"
    by (auto simp: test_defs)
  from tfw_connection_put_skb_to_msg_cases [OF c3, where e = env0 and h = 101
      and ?s1.0 = "snd (conn_msg_alloc (hooks_at env0 101) 3 s_live1)"
      and ?cv1.0 = "conn0\<lparr>proto := \<lparr>type = 0x101\<rparr>, sock := Some 11\<rparr>"
      and m = 30 and mv = "\<lparr>skb_list = []\<rparr>" and skb = 71, THEN conjunct2, THEN conjunct1]
  have fresh1: "\<exists>s'. tfw_connection_put_skb_to_msg env0 (ConnRef 3) 71 s_live1 = Inr (0, s')
        \<and> calls s' = [CONN_MSG_ALLOC 101 3] \<and> map_option msg (conns s' 3) = Some (Some 30)
        \<and> map_option skb_list (msgs s' 30) = Some [71]"
    by (auto simp: test_defs)
  from tfw_connection_put_skb_to_msg_cases [OF c2b, where e = env0
      and m = 30 and mv = "\<lparr>skb_list = [70]\<rparr>" and skb = 71, THEN conjunct2, THEN conjunct2]
  have more: "\<exists>s'. tfw_connection_put_skb_to_msg env0 (ConnRef 2) 71 s_busy = Inr (0, s')
        \<and> calls s' = [] \<and> map_option skb_list (msgs s' 30) = Some [70, 71]"
    by (auto simp: test_defs)
  from fails fresh fresh1 more show ?thesis by blast
qed

subsection \<open>The type and the destructor of a new connection\<close>

text \<open>
  Claim C4, as the code has it. On a socket whose user-data carries a pre-bound tag,
  \<^verbatim>\<open>tfw_connection_new\<close> ORs the whole tag into the requested type, unmasked: the
  connection's type is \<open>type OR tag\<close> and its direction bits are those of the type
  argument together with those of the tag. They are exactly those of the type
  argument when the tag has no direction bit. (\<^verbatim>\<open>conn_init\<close> is taken to leave the
  wiring of the connection alone.)
\<close>

theorem tfw_connection_new_type:
  assumes new: "tfw_connection_new e sk t0 d s = Inr (Some c, s')"
    and skv: "socks s sk = Some skv" and ud: "sk_user_data skv = Some r"
    and tag: "read_proto_type s r = Inr tag"
    and frame: "\<forall>h. keeps_wiring (conn_init (hooks_at e h) c) sk c"
  shows "map_option TFW_CONN_TYPE (conns s' c) = Some (t0 OR tag)
       \<and> dir_bits e (t0 OR tag) = dir_bits e t0 OR dir_bits e tag
       \<and> (dir_bits e tag = 0 \<longrightarrow> dir_bits e (t0 OR tag) = dir_bits e t0)"
proof -
  from tfw_connection_new_SomeD [OF new] skv obtain t h s2 where
      t: "conn_new_type s skv t0 = Inr t" and s': "s' = call_conn_init e h c s2"
      and c2: "conns s2 c = Some \<lparr>proto = \<lparr>type = t\<rparr>, msg_queue = [], msg = None, peer = None,
          sock = Some sk, conn_sk_destruct = (if d \<noteq> None then sk_destruct skv else None)\<rparr>"
    by auto
  from t ud tag have t_eq: "t = t0 OR tag" by (simp add: conn_new_type_def)
  from frame have "keeps_wiring (conn_init (hooks_at e h) c) sk c" by simp
  from keeps_wiring_conn [OF this c2] obtain cv' where
      "conns (conn_init (hooks_at e h) c s2) c = Some cv'" and "proto cv' = \<lparr>type = t\<rparr>"
    by auto
  with s' t_eq have "map_option TFW_CONN_TYPE (conns s' c) = Some (t0 OR tag)"
    by (simp add: call_conn_init_def TFW_CONN_TYPE_def)
  moreover have "dir_bits e (t0 OR tag) = dir_bits e t0 OR dir_bits e tag"
    by (simp add: dir_bits_def bit.conj_disj_distrib2)
  ultimately show ?thesis by simp
qed

theorem tfw_connection_new_type_witness:
  "(\<exists>s'. tfw_connection_new env0 11 0x100 None s0 = Inr (Some 1, s')
        \<and> map_option TFW_CONN_TYPE (conns s' 1) = Some 0x301)
   \<and> (\<exists>s'. tfw_connection_new env0 12 0x100 None s0 = Inr (Some 1, s')
        \<and> map_option TFW_CONN_TYPE (conns s' 1) = Some 0x101
        \<and> dir_bits env0 0x101 = dir_bits env0 0x100)"
proof -
  define s1 where "s1 = snd (projr (tfw_connection_new env0 11 0x100 None s0))"
  define s2 where "s2 = snd (projr (tfw_connection_new env0 12 0x100 None s0))"
  have new1: "tfw_connection_new env0 11 0x100 None s0 = Inr (Some 1, s1)"
    unfolding s1_def by (simp add: model_defs test_defs)
  have new2: "tfw_connection_new env0 12 0x100 None s0 = Inr (Some 1, s2)"
    unfolding s2_def by (simp add: model_defs test_defs)
  have sk11: "socks s0 11 = Some (sk0\<lparr>sk_user_data := Some (ProtoRef 20)\<rparr>)"
    and sk12: "socks s0 12 = Some (sk0\<lparr>sk_user_data := Some (ProtoRef 21)\<rparr>)"
    and tag20: "read_proto_type s0 (ProtoRef 20) = Inr 0x201"
    and tag21: "read_proto_type s0 (ProtoRef 21) = Inr 1"
    by (simp_all add: s0_def read_proto_type_def)
  have frame: "\<forall>h. keeps_wiring (conn_init (hooks_at env0 h) 1) sk 1" for sk
    by (simp add: env0_hooks_keep_wiring)
  from tfw_connection_new_type [OF new1 sk11 _ tag20 frame]
  have "map_option TFW_CONN_TYPE (conns s1 1) = Some 0x301" by simp
  moreover from tfw_connection_new_type [OF new2 sk12 _ tag21 frame]
  have "map_option TFW_CONN_TYPE (conns s2 1) = Some 0x101
      \<and> dir_bits env0 0x101 = dir_bits env0 0x100"
    by (simp add: dir_bits_def env0_def)
  ultimately show ?thesis using new1 new2 by simp
qed

text \<open>
  The claim as stated (only the protocol bits of the tag are ORed in; the direction bits
  of the result are those of the type argument) fails: socket 11 of \<open>s0\<close> carries the
  tag \<open>0x201\<close>, whose server-facing bit is set; a client-facing
  \<^verbatim>\<open>tfw_connection_new\<close> on it yields a connection of type \<open>0x301\<close>, with both
  direction bits.
\<close>

theorem tfw_connection_new_direction_bits_counterexample:
  "map_option sk_user_data (socks s0 11) = Some (Some (ProtoRef 20)) \<and>
   read_proto_type s0 (ProtoRef 20) = Inr 0x201 \<and>
   map_option TFW_CONN_TYPE (new_conn (tfw_connection_new env0 11 (Conn_Clnt env0) None s0))
     = Some 0x301 \<and>
   dir_bits env0 0x301 \<noteq> dir_bits env0 (Conn_Clnt env0)"
  by (simp add: model_defs test_defs new_conn_def dir_bits_def)

text \<open>
  Claim C10. \<^verbatim>\<open>tfw_connection_new\<close> with a NULL destructor leaves the socket's
  destructor in place and the connection's \<^verbatim>\<open>sk_destruct\<close> empty; with a destructor,
  the socket's previous destructor is captured in the connection and the socket gets
  the new one. (\<^verbatim>\<open>conn_init\<close> is taken to leave the wiring alone.)
\<close>

theorem tfw_connection_new_destructor:
  assumes new: "tfw_connection_new e sk t0 destructor s = Inr (Some c, s')"
    and skv: "socks s sk = Some skv"
    and frame: "\<forall>h. keeps_wiring (conn_init (hooks_at e h) c) sk c"
  shows "(destructor = None \<longrightarrow>
            map_option sk_destruct (socks s' sk) = Some (sk_destruct skv)
          \<and> map_option conn_sk_destruct (conns s' c) = Some None)
       \<and> (destructor \<noteq> None \<longrightarrow>
            map_option sk_destruct (socks s' sk) = Some destructor
          \<and> map_option conn_sk_destruct (conns s' c) = Some (sk_destruct skv))"
proof -
  from tfw_connection_new_SomeD [OF new] skv obtain t h s2 where
      s': "s' = call_conn_init e h c s2"
      and sk2: "socks s2 sk = Some (skv\<lparr>sk_user_data := Some (ConnRef c),
          sk_destruct := (if destructor \<noteq> None then destructor else sk_destruct skv),
          sk_flags := insert SOCK_DBG (sk_flags skv)\<rparr>)"
      and c2: "conns s2 c = Some \<lparr>proto = \<lparr>type = t\<rparr>, msg_queue = [], msg = None, peer = None,
          sock = Some sk,
          conn_sk_destruct = (if destructor \<noteq> None then sk_destruct skv else None)\<rparr>"
    by auto
  from frame have k: "keeps_wiring (conn_init (hooks_at e h) c) sk c" by simp
  from keeps_wiring_conn [OF k c2] obtain cv' where
      "conns (conn_init (hooks_at e h) c s2) c = Some cv'"
      and "conn_sk_destruct cv' = (if destructor \<noteq> None then sk_destruct skv else None)"
    by auto
  moreover from keeps_wiring_socks [OF k] sk2
  have "socks (conn_init (hooks_at e h) c s2) sk = Some (skv\<lparr>sk_user_data := Some (ConnRef c),
          sk_destruct := (if destructor \<noteq> None then destructor else sk_destruct skv),
          sk_flags := insert SOCK_DBG (sk_flags skv)\<rparr>)"
    by simp
  ultimately show ?thesis using s' by (simp add: call_conn_init_def)
qed

theorem tfw_connection_new_destructor_witness:
  "(\<exists>s'. tfw_connection_new env0 10 0x100 None s0 = Inr (Some 1, s')
        \<and> map_option sk_destruct (socks s' 10) = Some (Some (sk_destructor_fn 0))
        \<and> map_option conn_sk_destruct (conns s' 1) = Some None)
   \<and> (\<exists>s'. tfw_connection_new env0 10 0x100 (Some tfw_client_put) s0 = Inr (Some 1, s')
        \<and> map_option sk_destruct (socks s' 10) = Some (Some tfw_client_put)
        \<and> map_option conn_sk_destruct (conns s' 1) = Some (Some (sk_destructor_fn 0)))"
proof -
  define s1 where "s1 = snd (projr (tfw_connection_new env0 10 0x100 None s0))"
  define s2 where
    "s2 = snd (projr (tfw_connection_new env0 10 0x100 (Some tfw_client_put) s0))"
  have new1: "tfw_connection_new env0 10 0x100 None s0 = Inr (Some 1, s1)"
    unfolding s1_def by (simp add: model_defs test_defs)
  have new2: "tfw_connection_new env0 10 0x100 (Some tfw_client_put) s0 = Inr (Some 1, s2)"
    unfolding s2_def by (simp add: model_defs test_defs)
  have sk10: "socks s0 10 = Some sk0" by (simp add: s0_def)
  have frame: "\<forall>h. keeps_wiring (conn_init (hooks_at env0 h) 1) 10 1"
    by (simp add: env0_hooks_keep_wiring)
  from tfw_connection_new_destructor [OF new1 sk10 frame]
  have "map_option sk_destruct (socks s1 10) = Some (Some (sk_destructor_fn 0))
      \<and> map_option conn_sk_destruct (conns s1 1) = Some None"
    by (simp add: sk0_def)
  moreover from tfw_connection_new_destructor [OF new2 sk10 frame]
  have "map_option sk_destruct (socks s2 10) = Some (Some tfw_client_put)
      \<and> map_option conn_sk_destruct (conns s2 1) = Some (Some (sk_destructor_fn 0))"
    by (simp add: sk0_def)
  ultimately show ?thesis using new1 new2 by simp
qed

subsection \<open>The binding of socket and connection\<close>

text \<open>The invariant depends on the socket and connection heaps only.\<close>

lemma wired_upd [simp]:
  "wired (s\<lparr>calls := x\<rparr>) = wired s"
  "wired (s\<lparr>msgs := y\<rparr>) = wired s"
  "wired (s\<lparr>peers := z\<rparr>) = wired s"
  "wired (s\<lparr>conn_hooks := u\<rparr>) = wired s"
  by (simp_all add: wired_def bound_def)



















end
